theory Spec2Isabelle
  imports Main
begin

section \<open>Happy Eyeballs (quic/happyeyeballs/QuicHappyEyeballsFunctions.cpp)\<close>

text \<open>
  A shallow embedding of the Happy Eyeballs functions of the QUIC client. The functions
  mutate the connection state, a timer callback and socket objects through references;
  the model passes these around explicitly and returns them updated. A failed
  \<^verbatim>\<open>CHECK\<close>/\<^verbatim>\<open>DCHECK\<close> and the dereference of an empty \<^verbatim>\<open>unique_ptr\<close> end the
  process; they are the \<open>Inl\<close> results of the model. \<^verbatim>\<open>QUIC_TRACE\<close> only logs and is
  left out.
\<close>

subsection \<open>Socket addresses (folly::SocketAddress)\<close>

text \<open>
  \<^verbatim>\<open>sa_family_t\<close> is an unsigned integer; only equality of families is used. The
  values of \<^verbatim>\<open>AF_UNSPEC\<close> and \<^verbatim>\<open>AF_INET\<close> are the same everywhere, that of
  \<^verbatim>\<open>AF_INET6\<close> is the one of Linux; no property depends on the numbers beyond their
  being distinct.
\<close>

type_synonym sa_family_t = nat

definition AF_UNSPEC :: sa_family_t where "AF_UNSPEC = 0"
definition AF_INET :: sa_family_t where "AF_INET = 2"
definition AF_INET6 :: sa_family_t where "AF_INET6 = 10"

record SocketAddress =
  family :: sa_family_t
  host :: string
  port :: nat

definition getFamily :: "SocketAddress \<Rightarrow> sa_family_t" where
  "getFamily a = family a"

definition isInitialized :: "SocketAddress \<Rightarrow> bool" where
  "isInitialized a = (getFamily a \<noteq> AF_UNSPEC)"

text \<open>A default-constructed address, and the two wildcard addresses the sockets bind to.\<close>

definition uninitializedAddress :: SocketAddress where
  "uninitializedAddress = \<lparr>family = AF_UNSPEC, host = [], port = 0\<rparr>"

definition wildcardV4 :: SocketAddress where
  "wildcardV4 = \<lparr>family = AF_INET, host = ''0.0.0.0'', port = 0\<rparr>"

definition wildcardV6 :: SocketAddress where
  "wildcardV6 = \<lparr>family = AF_INET6, host = ''::'', port = 0\<rparr>"

subsection \<open>Library objects: the UDP socket and the timer callback\<close>

text \<open>
  \<^verbatim>\<open>folly::AsyncUDPSocket\<close> and \<^verbatim>\<open>folly::HHWheelTimer::Callback\<close> belong to a library
  outside the repository. An object is modelled by the calls made on it that returned
  normally, in order; what the library does inside is not assumed. A callback pointer
  is a number.
\<close>

type_synonym callback = nat

datatype sockopt = IP_MTU_DISCOVER_PROBE | IPV6_MTU_DISCOVER_PROBE

datatype sock_call =
    SetReuseAddr bool
  | Bind SocketAddress
  | SetSockOpt sockopt
  | DontFragment bool
  | Connect SocketAddress
  | SetErrMessageCallback callback
  | ResumeRead callback
  | PauseRead
  | Close

record AsyncUDPSocket =
  sockId :: nat
  calls :: "sock_call list"

datatype timer_call = ScheduleTimeout int | CancelTimeout

record TimerCallback =
  timerId :: nat
  timerCalls :: "timer_call list"

definition recordCall :: "sock_call \<Rightarrow> AsyncUDPSocket \<Rightarrow> AsyncUDPSocket" where
  "recordCall c s = s\<lparr>calls := calls s @ [c]\<rparr>"

definition scheduleTimeout :: "int \<Rightarrow> TimerCallback \<Rightarrow> TimerCallback" where
  "scheduleTimeout d t = t\<lparr>timerCalls := timerCalls t @ [ScheduleTimeout d]\<rparr>"

definition cancelTimeout :: "TimerCallback \<Rightarrow> TimerCallback" where
  "cancelTimeout t = t\<lparr>timerCalls := timerCalls t @ [CancelTimeout]\<rparr>"

text \<open>
  What the call history says about an object: a timer is armed when the last call on it
  scheduled it; a socket holds an open descriptor from a \<open>Bind\<close> until the next
  \<open>Close\<close>, and delivers reads from a \<open>ResumeRead\<close> until the next \<open>PauseRead\<close> or
  \<open>Close\<close>; its local address is the one last bound.
\<close>

definition scheduledDelay :: "TimerCallback \<Rightarrow> int option" where
  "scheduledDelay t =
     (case rev (timerCalls t) of
        ScheduleTimeout d # _ \<Rightarrow> Some d
      | _ \<Rightarrow> None)"

fun openAfter :: "bool \<Rightarrow> sock_call list \<Rightarrow> bool" where
  "openAfter b [] = b"
| "openAfter b (Bind a # cs) = openAfter True cs"
| "openAfter b (Close # cs) = openAfter False cs"
| "openAfter b (c # cs) = openAfter b cs"

fun readingAfter :: "bool \<Rightarrow> sock_call list \<Rightarrow> bool" where
  "readingAfter b [] = b"
| "readingAfter b (ResumeRead f # cs) = readingAfter True cs"
| "readingAfter b (PauseRead # cs) = readingAfter False cs"
| "readingAfter b (Close # cs) = readingAfter False cs"
| "readingAfter b (c # cs) = readingAfter b cs"

fun localAddress :: "SocketAddress \<Rightarrow> sock_call list \<Rightarrow> SocketAddress" where
  "localAddress a [] = a"
| "localAddress a (Bind b # cs) = localAddress b cs"
| "localAddress a (c # cs) = localAddress a cs"

definition isOpen :: "AsyncUDPSocket \<Rightarrow> bool" where
  "isOpen s = openAfter False (calls s)"

definition isReading :: "AsyncUDPSocket \<Rightarrow> bool" where
  "isReading s = readingAfter False (calls s)"

definition address :: "AsyncUDPSocket \<Rightarrow> SocketAddress" where
  "address s = localAddress uninitializedAddress (calls s)"

subsection \<open>Build, platform and operating system\<close>

text \<open>
  \<open>dchecks\<close>: whether \<^verbatim>\<open>DCHECK\<close> is compiled in (a debug build). \<open>hasIpMtuDiscover\<close>
  and \<open>hasIpv6MtuDiscover\<close>: whether the platform defines the socket options of the two
  \<^verbatim>\<open>#if\<close> blocks. \<open>throws i c\<close>: whether call \<open>c\<close> on the socket with id \<open>i\<close> throws
  (an \<^verbatim>\<open>AsyncSocketException\<close>, which is a \<^verbatim>\<open>std::exception\<close>).
\<close>

record platform =
  dchecks :: bool
  hasIpMtuDiscover :: bool
  hasIpv6MtuDiscover :: bool
  throws :: "nat \<Rightarrow> sock_call \<Rightarrow> bool"

datatype fault = CheckFailure | DCheckFailure | NullDereference

datatype outcome = Returned | Threw

text \<open>
  A call on a socket either throws and leaves the object as it was, or returns and is
  recorded. \<open>andThen\<close> sequences two steps: the second runs only if the first returned.
\<close>

definition invoke :: "platform \<Rightarrow> sock_call \<Rightarrow> AsyncUDPSocket \<Rightarrow> outcome \<times> AsyncUDPSocket" where
  "invoke pf c s =
     (if throws pf (sockId s) c then (Threw, s) else (Returned, recordCall c s))"

definition andThen ::
  "outcome \<times> AsyncUDPSocket \<Rightarrow> (AsyncUDPSocket \<Rightarrow> outcome \<times> AsyncUDPSocket) \<Rightarrow>
   outcome \<times> AsyncUDPSocket" where
  "andThen r f = (case r of (Returned, s) \<Rightarrow> f s | (Threw, s) \<Rightarrow> (Threw, s))"

subsection \<open>Connection state\<close>

text \<open>
  Modelled from the spec: quic/state/StateData.h, which declares
  \<^verbatim>\<open>QuicConnectionStateBase\<close>, its \<^verbatim>\<open>HappyEyeballsState\<close> and \<^verbatim>\<open>TransportSettings\<close>, is
  missing. The records hold the fields that the functions of
  QuicHappyEyeballsFunctions.cpp read and write, under the names used there: the two
  registered addresses, the address and socket of the second attempt, the two write
  flags and \<open>finished\<close>. \<open>connAttemptDelayTimeout\<close> is a pointer to the timer callback
  (its id, or none for null); \<open>secondSocket\<close> is a \<^verbatim>\<open>unique_ptr\<close>, none when empty.
\<close>

record TransportSettings =
  turnoffPMTUD :: bool
  connectUDP :: bool
  enableSocketErrMsgCallback :: bool

record HappyEyeballsState =
  connAttemptDelayTimeout :: "nat option"
  v6PeerAddress :: SocketAddress
  v4PeerAddress :: SocketAddress
  secondPeerAddress :: SocketAddress
  secondSocket :: "AsyncUDPSocket option"
  shouldWriteToFirstSocket :: bool
  shouldWriteToSecondSocket :: bool
  finished :: bool

record QuicConnectionStateBase =
  originalPeerAddress :: SocketAddress
  peerAddress :: SocketAddress
  transportSettings :: TransportSettings
  happyEyeballsState :: HappyEyeballsState

text \<open>
  The objects a call reaches through its reference parameters: the connection, the
  delay timer callback and the transport's own (first) socket. \<open>released\<close> collects the
  sockets destroyed by \<^verbatim>\<open>unique_ptr::reset\<close>, newest first, as they were when they
  were destroyed.
\<close>

record client =
  connection :: QuicConnectionStateBase
  timeout :: TimerCallback
  socket :: "AsyncUDPSocket option"
  released :: "AsyncUDPSocket list"

subsection \<open>The functions\<close>

definition happyEyeballsAddPeerAddress ::
  "platform \<Rightarrow> QuicConnectionStateBase \<Rightarrow> SocketAddress \<Rightarrow> fault + QuicConnectionStateBase" where
  "happyEyeballsAddPeerAddress pf conn addr =
     (let he = happyEyeballsState conn in
      if getFamily addr = AF_INET then
        if dchecks pf \<and> isInitialized (v4PeerAddress he) then Inl DCheckFailure
        else Inr (conn\<lparr>happyEyeballsState := he\<lparr>v4PeerAddress := addr\<rparr>\<rparr>)
      else
        if dchecks pf \<and> isInitialized (v6PeerAddress he) then Inl DCheckFailure
        else Inr (conn\<lparr>happyEyeballsState := he\<lparr>v6PeerAddress := addr\<rparr>\<rparr>))"

text \<open>
  \<^verbatim>\<open>secondSocket = std::move(socket)\<close>: a socket held before is destroyed.
\<close>

definition happyEyeballsAddSocket :: "client \<Rightarrow> AsyncUDPSocket option \<Rightarrow> client" where
  "happyEyeballsAddSocket w sock =
     (let conn = connection w; he = happyEyeballsState conn in
      w\<lparr>connection := conn\<lparr>happyEyeballsState := he\<lparr>secondSocket := sock\<rparr>\<rparr>,
        released := (case secondSocket he of
                       None \<Rightarrow> released w
                     | Some old \<Rightarrow> old # released w)\<rparr>)"

text \<open>
  The calls of the set-up in the order of the source; the first that throws ends it. The
  two \<^verbatim>\<open>setsockopt\<close> calls return a status that is ignored and do not throw.
\<close>

definition happyEyeballsSetUpSocket ::
  "platform \<Rightarrow> AsyncUDPSocket \<Rightarrow> SocketAddress \<Rightarrow> TransportSettings \<Rightarrow> callback \<Rightarrow> callback \<Rightarrow>
   outcome \<times> AsyncUDPSocket" where
  "happyEyeballsSetUpSocket pf sock addr ts errMsgCallback readCallback =
     andThen (invoke pf (SetReuseAddr False) sock) (\<lambda>s.
     andThen (if getFamily addr = AF_INET then invoke pf (Bind wildcardV4) s
              else invoke pf (Bind wildcardV6) s) (\<lambda>s.
     andThen (if turnoffPMTUD ts then
                (let s4 = (if hasIpMtuDiscover pf \<and> getFamily (address s) = AF_INET
                           then recordCall (SetSockOpt IP_MTU_DISCOVER_PROBE) s else s);
                     s6 = (if hasIpv6MtuDiscover pf \<and> getFamily (address s4) = AF_INET6
                           then recordCall (SetSockOpt IPV6_MTU_DISCOVER_PROBE) s4 else s4)
                 in (Returned, s6))
              else invoke pf (DontFragment True) s) (\<lambda>s.
     andThen (if connectUDP ts then invoke pf (Connect addr) s else (Returned, s)) (\<lambda>s.
     andThen (if enableSocketErrMsgCallback ts
              then invoke pf (SetErrMessageCallback errMsgCallback) s else (Returned, s)) (\<lambda>s.
     invoke pf (ResumeRead readCallback) s)))))"

text \<open>
  The \<^verbatim>\<open>catch\<close> takes every \<^verbatim>\<open>std::exception\<close>, so whatever call of the set-up
  throws; the second socket keeps the calls that returned before.
\<close>

definition startHappyEyeballs ::
  "platform \<Rightarrow> client \<Rightarrow> sa_family_t \<Rightarrow> int \<Rightarrow> callback \<Rightarrow> callback \<Rightarrow> fault + client" where
  "startHappyEyeballs pf w cachedFamily connAttempDelay errMsgCallback readCallback =
     (let conn = connection w; he = happyEyeballsState conn in
      if isInitialized (v6PeerAddress he) \<and> isInitialized (v4PeerAddress he) then
        if dchecks pf \<and> secondSocket he = None then Inl DCheckFailure
        else
          let conn1 =
                (if cachedFamily = AF_INET then
                   conn\<lparr>originalPeerAddress := v4PeerAddress he,
                        peerAddress := v4PeerAddress he,
                        happyEyeballsState := he\<lparr>secondPeerAddress := v6PeerAddress he\<rparr>\<rparr>
                 else
                   conn\<lparr>originalPeerAddress := v6PeerAddress he,
                        peerAddress := v6PeerAddress he,
                        happyEyeballsState := he\<lparr>secondPeerAddress := v4PeerAddress he\<rparr>\<rparr>);
              he1 = (happyEyeballsState conn1)
                      \<lparr>connAttemptDelayTimeout := Some (timerId (timeout w))\<rparr>;
              t1 = scheduleTimeout connAttempDelay (timeout w)
          in case secondSocket he1 of
               None \<Rightarrow> Inl NullDereference
             | Some sk \<Rightarrow>
                 (case happyEyeballsSetUpSocket pf sk (secondPeerAddress he1)
                         (transportSettings conn1) errMsgCallback readCallback of
                    (Returned, sk') \<Rightarrow>
                      Inr (w\<lparr>connection :=
                               conn1\<lparr>happyEyeballsState := he1\<lparr>secondSocket := Some sk'\<rparr>\<rparr>,
                             timeout := t1\<rparr>)
                  | (Threw, sk') \<Rightarrow>
                      Inr (w\<lparr>connection :=
                               conn1\<lparr>happyEyeballsState :=
                                 he1\<lparr>secondSocket := Some sk', finished := True\<rparr>\<rparr>,
                             timeout := cancelTimeout t1\<rparr>))
      else if isInitialized (v6PeerAddress he) then
        Inr (w\<lparr>connection :=
                 conn\<lparr>originalPeerAddress := v6PeerAddress he,
                      peerAddress := v6PeerAddress he,
                      happyEyeballsState := he\<lparr>finished := True\<rparr>\<rparr>\<rparr>)
      else if isInitialized (v4PeerAddress he) then
        Inr (w\<lparr>connection :=
                 conn\<lparr>originalPeerAddress := v4PeerAddress he,
                      peerAddress := v4PeerAddress he,
                      happyEyeballsState := he\<lparr>finished := True\<rparr>\<rparr>\<rparr>)
      else Inr w)"

definition happyEyeballsStartSecondSocket :: "HappyEyeballsState \<Rightarrow> fault + HappyEyeballsState" where
  "happyEyeballsStartSecondSocket he =
     (if finished he then Inl CheckFailure
      else Inr (he\<lparr>shouldWriteToSecondSocket := True\<rparr>))"

text \<open>
  \<^verbatim>\<open>secondSocket->pauseRead()\<close> dereferences the handle as it is after the possible
  swap; \<^verbatim>\<open>reset\<close> destroys the socket and empties the handle.
\<close>

definition happyEyeballsOnDataReceived :: "client \<Rightarrow> SocketAddress \<Rightarrow> fault + client" where
  "happyEyeballsOnDataReceived w addr =
     (let conn = connection w; he = happyEyeballsState conn in
      if finished he then Inr w
      else
        let t1 = cancelTimeout (timeout w);
            he1 = he\<lparr>finished := True,
                     shouldWriteToFirstSocket := True,
                     shouldWriteToSecondSocket := False\<rparr>;
            swap = (getFamily (peerAddress conn) \<noteq> getFamily addr);
            sock1 = (if swap then secondSocket he1 else socket w);
            second1 = (if swap then socket w else secondSocket he1);
            conn1 = (if swap then conn\<lparr>originalPeerAddress := addr, peerAddress := addr\<rparr>
                     else conn)
        in case second1 of
             None \<Rightarrow> Inl NullDereference
           | Some sk \<Rightarrow>
               Inr (w\<lparr>connection := conn1\<lparr>happyEyeballsState := he1\<lparr>secondSocket := None\<rparr>\<rparr>,
                      timeout := t1,
                      socket := sock1,
                      released := recordCall Close (recordCall PauseRead sk) # released w\<rparr>))"

text \<open>
  The socket handles a client holds that own an open descriptor: its first socket and
  the second socket of the Happy Eyeballs state.
\<close>

definition openHandles :: "client \<Rightarrow> nat" where
  "openHandles w =
     (case socket w of None \<Rightarrow> 0 | Some s \<Rightarrow> if isOpen s then 1 else 0) +
     (case secondSocket (happyEyeballsState (connection w)) of
        None \<Rightarrow> 0
      | Some s \<Rightarrow> if isOpen s then 1 else 0)"

section \<open>Client handshake hand-off (quic/client/handshake/ClientHandshake.h)\<close>

text \<open>
  The header declares the ten cipher members (\<^verbatim>\<open>std::unique_ptr\<close>, so a member is
  either a cipher or null), \<^verbatim>\<open>folly::Optional<bool> zeroRttRejected_\<close>, and the
  getters with their comments. The bodies of the getters and the code that fills the
  members are in ClientHandshake.cpp, which is not among the sources. A cipher object is
  identified by a number; a slot is named after its member.

  Modelled from the spec: the state of the slots (kept by ClientHandshake.cpp, which is
  missing). The spec: ``ten one-shot slots'', of which a take ``returns the slot
  contents once and then returns empty forever''. \<open>ciphers sl\<close> is what slot \<open>sl\<close>
  holds; \<open>handedOff sl\<close> records that the slot has handed its cipher out.
\<close>

type_synonym cipher = nat

datatype cipherSlot =
    HandshakeWriteCipher
  | HandshakeReadCipher
  | OneRttReadCipher
  | OneRttWriteCipher
  | ZeroRttWriteCipher
  | OneRttReadHeaderCipher
  | OneRttWriteHeaderCipher
  | HandshakeReadHeaderCipher
  | HandshakeWriteHeaderCipher
  | ZeroRttWriteHeaderCipher

record ClientHandshake =
  ciphers :: "cipherSlot \<Rightarrow> cipher option"
  handedOff :: "cipherSlot \<Rightarrow> bool"
  zeroRttRejected :: "bool option"




text \<open>
  Modelled from the spec: the body of \<^verbatim>\<open>getZeroRttRejected\<close> (ClientHandshake.cpp) is
  missing. The spec: an ``edge-triggered tri-state (never-attempted, accepted,
  rejected)''; the header: ``If zero rtt was never attempted, then this will return
  folly::none. Once the result is obtained, the result is cleared out.'' The member
  \<open>zeroRttRejected\<close> is none until the handshake records a result; \<open>Some True\<close> is
  rejected, \<open>Some False\<close> accepted.
\<close>

definition getZeroRttRejected :: "ClientHandshake \<Rightarrow> bool option \<times> ClientHandshake" where
  "getZeroRttRejected h = (zeroRttRejected h, h\<lparr>zeroRttRejected := None\<rparr>)"






text \<open>The results of \<open>n\<close> successive calls of \<open>getZeroRttRejected\<close>.\<close>

fun zeroRttReads :: "nat \<Rightarrow> ClientHandshake \<Rightarrow> bool option list" where
  "zeroRttReads 0 h = []"
| "zeroRttReads (Suc n) h =
     fst (getZeroRttRejected h) # zeroRttReads n (snd (getZeroRttRejected h))"

section \<open>Example states\<close>

definition serverV4 :: SocketAddress where
  "serverV4 = \<lparr>family = AF_INET, host = ''192.0.2.1'', port = 443\<rparr>"

definition otherV4 :: SocketAddress where
  "otherV4 = \<lparr>family = AF_INET, host = ''198.51.100.7'', port = 443\<rparr>"

definition serverV6 :: SocketAddress where
  "serverV6 = \<lparr>family = AF_INET6, host = ''2001:db8::1'', port = 443\<rparr>"

definition exampleSettings :: TransportSettings where
  "exampleSettings =
     \<lparr>turnoffPMTUD = False, connectUDP = True, enableSocketErrMsgCallback = False\<rparr>"

text \<open>Nothing registered, nothing started.\<close>

definition emptyState :: HappyEyeballsState where
  "emptyState =
     \<lparr>connAttemptDelayTimeout = None,
      v6PeerAddress = uninitializedAddress,
      v4PeerAddress = uninitializedAddress,
      secondPeerAddress = uninitializedAddress,
      secondSocket = None,
      shouldWriteToFirstSocket = True,
      shouldWriteToSecondSocket = False,
      finished = False\<rparr>"

definition emptyConnection :: QuicConnectionStateBase where
  "emptyConnection =
     \<lparr>originalPeerAddress = uninitializedAddress,
      peerAddress = uninitializedAddress,
      transportSettings = exampleSettings,
      happyEyeballsState = emptyState\<rparr>"

definition emptyClient :: client where
  "emptyClient =
     \<lparr>connection = emptyConnection,
      timeout = \<lparr>timerId = 1, timerCalls = []\<rparr>,
      socket = Some \<lparr>sockId = 1, calls = []\<rparr>,
      released = []\<rparr>"

text \<open>Only the IPv4 address registered.\<close>

definition v4OnlyConnection :: QuicConnectionStateBase where
  "v4OnlyConnection =
     emptyConnection\<lparr>happyEyeballsState := emptyState\<lparr>v4PeerAddress := serverV4\<rparr>\<rparr>"

text \<open>Both addresses registered and a second socket added, before the start.\<close>

definition readyClient :: client where
  "readyClient =
     emptyClient\<lparr>connection :=
       emptyConnection\<lparr>happyEyeballsState :=
         emptyState\<lparr>v4PeerAddress := serverV4,
                    v6PeerAddress := serverV6,
                    secondSocket := Some \<lparr>sockId = 2, calls = []\<rparr>\<rparr>\<rparr>\<rparr>"

text \<open>Both addresses registered, but no second socket added.\<close>

definition noSecondSocketClient :: client where
  "noSecondSocketClient =
     emptyClient\<lparr>connection :=
       emptyConnection\<lparr>happyEyeballsState :=
         emptyState\<lparr>v4PeerAddress := serverV4, v6PeerAddress := serverV6\<rparr>\<rparr>\<rparr>"

text \<open>
  The race is on: the first socket talks to the IPv6 address, the second to the IPv4
  address, the delay timer is armed.
\<close>

definition racingClient :: client where
  "racingClient =
     \<lparr>connection =
        \<lparr>originalPeerAddress = serverV6,
         peerAddress = serverV6,
         transportSettings = exampleSettings,
         happyEyeballsState =
           \<lparr>connAttemptDelayTimeout = Some 1,
            v6PeerAddress = serverV6,
            v4PeerAddress = serverV4,
            secondPeerAddress = serverV4,
            secondSocket =
              Some \<lparr>sockId = 2,
                    calls = [SetReuseAddr False, Bind wildcardV4, DontFragment True,
                             Connect serverV4, ResumeRead 8]\<rparr>,
            shouldWriteToFirstSocket = True,
            shouldWriteToSecondSocket = False,
            finished = False\<rparr>\<rparr>,
      timeout = \<lparr>timerId = 1, timerCalls = [ScheduleTimeout 150]\<rparr>,
      socket =
        Some \<lparr>sockId = 1,
              calls = [SetReuseAddr False, Bind wildcardV6, DontFragment True,
                       Connect serverV6, ResumeRead 8]\<rparr>,
      released = []\<rparr>"

definition releaseBuild :: platform where
  "releaseBuild =
     \<lparr>dchecks = False, hasIpMtuDiscover = True, hasIpv6MtuDiscover = True,
      throws = (\<lambda>i c. False)\<rparr>"

definition debugBuild :: platform where
  "debugBuild =
     \<lparr>dchecks = True, hasIpMtuDiscover = True, hasIpv6MtuDiscover = True,
      throws = (\<lambda>i c. False)\<rparr>"

text \<open>A host without a route to the IPv6 address: connecting a socket to it throws.\<close>

definition noRouteToV6 :: platform where
  "noRouteToV6 =
     \<lparr>dchecks = True, hasIpMtuDiscover = True, hasIpv6MtuDiscover = True,
      throws = (\<lambda>i c. c = Connect serverV6)\<rparr>"

definition emptyHandshake :: ClientHandshake where
  "emptyHandshake =
     \<lparr>ciphers = (\<lambda>sl. None), handedOff = (\<lambda>sl. False), zeroRttRejected = None\<rparr>"

section \<open>Properties\<close>

subsection \<open>Evaluation and library facts\<close>

lemmas example_defs =
  serverV4_def otherV4_def serverV6_def exampleSettings_def emptyState_def
  emptyConnection_def emptyClient_def v4OnlyConnection_def readyClient_def
  noSecondSocketClient_def racingClient_def releaseBuild_def debugBuild_def noRouteToV6_def
  AF_INET_def AF_INET6_def AF_UNSPEC_def getFamily_def isInitialized_def
  uninitializedAddress_def wildcardV4_def wildcardV6_def

lemmas socket_defs =
  happyEyeballsSetUpSocket_def andThen_def invoke_def recordCall_def isOpen_def
  isReading_def scheduledDelay_def cancelTimeout_def scheduleTimeout_def

lemma openAfter_Close: "openAfter b (cs @ [Close]) = False"
  by (induction b cs rule: openAfter.induct) simp_all

lemma readingAfter_Close: "readingAfter b (cs @ [Close]) = False"
  by (induction b cs rule: readingAfter.induct) simp_all

lemma closed_not_open: "\<not> isOpen (recordCall Close s)"
  by (simp add: isOpen_def recordCall_def openAfter_Close)

lemma closed_not_reading: "\<not> isReading (recordCall Close s)"
  by (simp add: isReading_def recordCall_def readingAfter_Close)

text \<open>
  Claim C1, as amended. While \<open>finished\<close> is false, and provided the handle that ends
  up as the second socket is not empty (the transport's socket if the families differ,
  \<open>secondSocket\<close> otherwise), \<open>happyEyeballsOnDataReceived\<close> cancels the delay timer,
  sets \<open>finished\<close> and \<open>shouldWriteToFirstSocket\<close>, clears \<open>shouldWriteToSecondSocket\<close>,
  and, exactly when the family of the receiving address differs from that of
  \<open>peerAddress\<close>, swaps the two socket handles and makes the receiving address both
  \<open>peerAddress\<close> and \<open>originalPeerAddress\<close>. In either case the losing socket is then
  paused, closed and released, and \<open>secondSocket\<close> is left empty.
\<close>

theorem onDataReceived_first_datagram:
  assumes "\<not> finished (happyEyeballsState (connection w))"
    and "(if getFamily (peerAddress (connection w)) \<noteq> getFamily addr then socket w
          else secondSocket (happyEyeballsState (connection w))) = Some loser"
  shows "\<exists>w'. happyEyeballsOnDataReceived w addr = Inr w' \<and>
     timerCalls (timeout w') = timerCalls (timeout w) @ [CancelTimeout] \<and>
     scheduledDelay (timeout w') = None \<and>
     finished (happyEyeballsState (connection w')) \<and>
     shouldWriteToFirstSocket (happyEyeballsState (connection w')) \<and>
     \<not> shouldWriteToSecondSocket (happyEyeballsState (connection w')) \<and>
     (getFamily (peerAddress (connection w)) \<noteq> getFamily addr \<longrightarrow>
        socket w' = secondSocket (happyEyeballsState (connection w)) \<and>
        peerAddress (connection w') = addr \<and>
        originalPeerAddress (connection w') = addr) \<and>
     (getFamily (peerAddress (connection w)) = getFamily addr \<longrightarrow>
        socket w' = socket w \<and>
        peerAddress (connection w') = peerAddress (connection w) \<and>
        originalPeerAddress (connection w') = originalPeerAddress (connection w)) \<and>
     secondSocket (happyEyeballsState (connection w')) = None \<and>
     released w' = recordCall Close (recordCall PauseRead loser) # released w \<and>
     \<not> isReading (recordCall Close (recordCall PauseRead loser)) \<and>
     \<not> isOpen (recordCall Close (recordCall PauseRead loser))"
proof (cases "getFamily (peerAddress (connection w)) \<noteq> getFamily addr")
  case True
  with assms have "socket w = Some loser" by simp
  with assms(1) True show ?thesis
    by (simp add: happyEyeballsOnDataReceived_def Let_def closed_not_open closed_not_reading
        scheduledDelay_def cancelTimeout_def)
next
  case False
  with assms have "secondSocket (happyEyeballsState (connection w)) = Some loser" by simp
  with assms(1) False show ?thesis
    by (simp add: happyEyeballsOnDataReceived_def Let_def closed_not_open closed_not_reading
        scheduledDelay_def cancelTimeout_def)
qed

text \<open>The IPv4 datagram arrives first (the second socket wins), or the IPv6 one does.\<close>

theorem onDataReceived_first_datagram_witness:
  "\<not> finished (happyEyeballsState (connection racingClient)) \<and>
   getFamily (peerAddress (connection racingClient)) \<noteq> getFamily serverV4 \<and>
   (\<exists>w'. happyEyeballsOnDataReceived racingClient serverV4 = Inr w' \<and>
      scheduledDelay (timeout w') = None \<and>
      finished (happyEyeballsState (connection w')) \<and>
      socket w' = secondSocket (happyEyeballsState (connection racingClient)) \<and>
      peerAddress (connection w') = serverV4 \<and>
      originalPeerAddress (connection w') = serverV4 \<and>
      secondSocket (happyEyeballsState (connection w')) = None \<and>
      released w' =
        [\<lparr>sockId = 1,
          calls = [SetReuseAddr False, Bind wildcardV6, DontFragment True,
                   Connect serverV6, ResumeRead 8, PauseRead, Close]\<rparr>]) \<and>
   getFamily (peerAddress (connection racingClient)) = getFamily serverV6 \<and>
   (\<exists>w'. happyEyeballsOnDataReceived racingClient serverV6 = Inr w' \<and>
      socket w' = socket racingClient \<and>
      peerAddress (connection w') = serverV6 \<and>
      secondSocket (happyEyeballsState (connection w')) = None \<and>
      released w' =
        [\<lparr>sockId = 2,
          calls = [SetReuseAddr False, Bind wildcardV4, DontFragment True,
                   Connect serverV4, ResumeRead 8, PauseRead, Close]\<rparr>])"
  using onDataReceived_first_datagram
      [of racingClient serverV4 "the (socket racingClient)"]
    onDataReceived_first_datagram
      [of racingClient serverV6 "the (secondSocket (happyEyeballsState (connection racingClient)))"]
  by (simp add: example_defs socket_defs happyEyeballsOnDataReceived_def Let_def)

text \<open>
  Without a second socket the call dereferences an empty handle: nothing is paused or
  closed, and no state results.
\<close>

theorem onDataReceived_no_second_socket_counterexample:
  "\<not> finished (happyEyeballsState (connection (emptyClient\<lparr>connection := v4OnlyConnection\<lparr>peerAddress := serverV4\<rparr>\<rparr>))) \<and>
   happyEyeballsOnDataReceived
     (emptyClient\<lparr>connection := v4OnlyConnection\<lparr>peerAddress := serverV4\<rparr>\<rparr>) serverV4 =
     Inl NullDereference"
  by (simp add: happyEyeballsOnDataReceived_def Let_def example_defs)


text \<open>
  Claim C2, as amended. With both addresses registered and a second socket added,
  \<open>startHappyEyeballs\<close> returns normally; the cached family selects the primary:
  \<open>AF_INET\<close> makes the v4 address \<open>peerAddress\<close> and \<open>originalPeerAddress\<close> and the v6
  address \<open>secondPeerAddress\<close>, any other value (the unspecified default too) makes the
  v6 address primary and the v4 address secondary. The delay timer is scheduled with the
  configured delay, and is still armed on return when setting up the second socket
  returned normally.
\<close>

theorem start_two_families:
  assumes "isInitialized (v4PeerAddress (happyEyeballsState (connection w)))"
    and "isInitialized (v6PeerAddress (happyEyeballsState (connection w)))"
    and "secondSocket (happyEyeballsState (connection w)) = Some sk"
  shows "\<exists>w'. startHappyEyeballs pf w cachedFamily delay errCb readCb = Inr w' \<and>
     (cachedFamily = AF_INET \<longrightarrow>
        peerAddress (connection w') = v4PeerAddress (happyEyeballsState (connection w)) \<and>
        originalPeerAddress (connection w') = v4PeerAddress (happyEyeballsState (connection w)) \<and>
        secondPeerAddress (happyEyeballsState (connection w')) =
          v6PeerAddress (happyEyeballsState (connection w))) \<and>
     (cachedFamily \<noteq> AF_INET \<longrightarrow>
        peerAddress (connection w') = v6PeerAddress (happyEyeballsState (connection w)) \<and>
        originalPeerAddress (connection w') = v6PeerAddress (happyEyeballsState (connection w)) \<and>
        secondPeerAddress (happyEyeballsState (connection w')) =
          v4PeerAddress (happyEyeballsState (connection w))) \<and>
     (\<exists>rest. timerCalls (timeout w') = timerCalls (timeout w) @ ScheduleTimeout delay # rest) \<and>
     (fst (happyEyeballsSetUpSocket pf sk (secondPeerAddress (happyEyeballsState (connection w')))
             (transportSettings (connection w)) errCb readCb) = Returned \<longrightarrow>
        scheduledDelay (timeout w') = Some delay)"
proof (cases "cachedFamily = AF_INET")
  case True
  obtain r sk' where
    "happyEyeballsSetUpSocket pf sk (v6PeerAddress (happyEyeballsState (connection w)))
       (transportSettings (connection w)) errCb readCb = (r, sk')"
    by (metis prod.collapse)
  with assms True show ?thesis
    by (cases r) (simp_all add: startHappyEyeballs_def Let_def scheduledDelay_def
        cancelTimeout_def scheduleTimeout_def)
next
  case False
  obtain r sk' where
    "happyEyeballsSetUpSocket pf sk (v4PeerAddress (happyEyeballsState (connection w)))
       (transportSettings (connection w)) errCb readCb = (r, sk')"
    by (metis prod.collapse)
  with assms False show ?thesis
    by (cases r) (simp_all add: startHappyEyeballs_def Let_def scheduledDelay_def
        cancelTimeout_def scheduleTimeout_def)
qed

text \<open>A cached IPv4 family, and no cached family.\<close>

theorem start_two_families_witness:
  "isInitialized (v4PeerAddress (happyEyeballsState (connection readyClient))) \<and>
   isInitialized (v6PeerAddress (happyEyeballsState (connection readyClient))) \<and>
   secondSocket (happyEyeballsState (connection readyClient)) = Some \<lparr>sockId = 2, calls = []\<rparr> \<and>
   (\<exists>w'. startHappyEyeballs releaseBuild readyClient AF_INET 150 7 8 = Inr w' \<and>
      peerAddress (connection w') = serverV4 \<and>
      originalPeerAddress (connection w') = serverV4 \<and>
      secondPeerAddress (happyEyeballsState (connection w')) = serverV6 \<and>
      timerCalls (timeout w') = [ScheduleTimeout 150] \<and>
      scheduledDelay (timeout w') = Some 150) \<and>
   (\<exists>w'. startHappyEyeballs releaseBuild readyClient AF_UNSPEC 150 7 8 = Inr w' \<and>
      peerAddress (connection w') = serverV6 \<and>
      originalPeerAddress (connection w') = serverV6 \<and>
      secondPeerAddress (happyEyeballsState (connection w')) = serverV4 \<and>
      timerCalls (timeout w') = [ScheduleTimeout 150] \<and>
      scheduledDelay (timeout w') = Some 150)"
  using start_two_families
      [of readyClient "\<lparr>sockId = 2, calls = []\<rparr>" releaseBuild AF_INET 150 7 8]
    start_two_families
      [of readyClient "\<lparr>sockId = 2, calls = []\<rparr>" releaseBuild AF_UNSPEC 150 7 8]
  by (simp add: example_defs socket_defs startHappyEyeballs_def Let_def)

text \<open>
  With both addresses registered but no second socket added, the \<^verbatim>\<open>DCHECK\<close> fails in a
  debug build, and an empty handle is dereferenced otherwise.
\<close>

theorem start_without_second_socket_counterexample:
  "isInitialized (v4PeerAddress (happyEyeballsState (connection noSecondSocketClient))) \<and>
   isInitialized (v6PeerAddress (happyEyeballsState (connection noSecondSocketClient))) \<and>
   startHappyEyeballs debugBuild noSecondSocketClient AF_INET 150 7 8 = Inl DCheckFailure \<and>
   startHappyEyeballs releaseBuild noSecondSocketClient AF_INET 150 7 8 = Inl NullDereference"
  by (simp add: example_defs startHappyEyeballs_def Let_def)

text \<open>
  Claim C5, as amended. With exactly one of the two addresses registered,
  \<open>startHappyEyeballs\<close> assigns that address to \<open>peerAddress\<close> and
  \<open>originalPeerAddress\<close>, sets \<open>finished\<close>, and changes nothing else: in particular
  \<open>shouldWriteToFirstSocket\<close> keeps the value it had before the call.
\<close>

theorem start_single_family:
  assumes "isInitialized (v4PeerAddress (happyEyeballsState (connection w))) \<noteq>
           isInitialized (v6PeerAddress (happyEyeballsState (connection w)))"
  shows "startHappyEyeballs pf w cachedFamily delay errCb readCb =
     Inr (w\<lparr>connection := (connection w)
        \<lparr>originalPeerAddress :=
           (if isInitialized (v6PeerAddress (happyEyeballsState (connection w)))
            then v6PeerAddress (happyEyeballsState (connection w))
            else v4PeerAddress (happyEyeballsState (connection w))),
         peerAddress :=
           (if isInitialized (v6PeerAddress (happyEyeballsState (connection w)))
            then v6PeerAddress (happyEyeballsState (connection w))
            else v4PeerAddress (happyEyeballsState (connection w))),
         happyEyeballsState := (happyEyeballsState (connection w))\<lparr>finished := True\<rparr>\<rparr>\<rparr>)"
  using assms by (auto simp add: startHappyEyeballs_def Let_def)

text \<open>Only the IPv4 address is registered.\<close>

theorem start_single_family_witness:
  "isInitialized (v4PeerAddress (happyEyeballsState v4OnlyConnection)) \<noteq>
     isInitialized (v6PeerAddress (happyEyeballsState v4OnlyConnection)) \<and>
   startHappyEyeballs debugBuild (emptyClient\<lparr>connection := v4OnlyConnection\<rparr>) AF_UNSPEC 150 7 8 =
     Inr (emptyClient\<lparr>connection := v4OnlyConnection
            \<lparr>originalPeerAddress := serverV4, peerAddress := serverV4,
             happyEyeballsState := (happyEyeballsState v4OnlyConnection)\<lparr>finished := True\<rparr>\<rparr>\<rparr>)"
  using start_single_family
      [of "emptyClient\<lparr>connection := v4OnlyConnection\<rparr>" debugBuild AF_UNSPEC 150 7 8]
  by (simp add: example_defs)

text \<open>
  A state whose \<open>shouldWriteToFirstSocket\<close> is false keeps it false: the start does not
  write the flag.
\<close>

theorem start_single_family_flag_counterexample:
  "isInitialized (v4PeerAddress (happyEyeballsState v4OnlyConnection)) \<and>
   \<not> isInitialized (v6PeerAddress (happyEyeballsState v4OnlyConnection)) \<and>
   startHappyEyeballs debugBuild
     (emptyClient\<lparr>connection := v4OnlyConnection
        \<lparr>happyEyeballsState :=
           (happyEyeballsState v4OnlyConnection)\<lparr>shouldWriteToFirstSocket := False\<rparr>\<rparr>\<rparr>)
     AF_UNSPEC 150 7 8 =
   Inr (emptyClient\<lparr>connection := v4OnlyConnection
        \<lparr>originalPeerAddress := serverV4, peerAddress := serverV4,
         happyEyeballsState :=
           (happyEyeballsState v4OnlyConnection)
             \<lparr>shouldWriteToFirstSocket := False, finished := True\<rparr>\<rparr>\<rparr>) \<and>
   \<not> shouldWriteToFirstSocket
       ((happyEyeballsState v4OnlyConnection)
          \<lparr>shouldWriteToFirstSocket := False, finished := True\<rparr>)"
  by (simp add: example_defs startHappyEyeballs_def Let_def)

text \<open>
  Claim C6. With both addresses registered, if setting up the second socket throws, then
  \<open>startHappyEyeballs\<close> still returns normally (no error reaches the caller), the delay
  timer that was just scheduled is cancelled, \<open>finished\<close> is set, and \<open>peerAddress\<close> and
  \<open>originalPeerAddress\<close> are the primary address selected before the attempt.
\<close>

theorem start_secondary_setup_throws:
  assumes "isInitialized (v4PeerAddress (happyEyeballsState (connection w)))"
    and "isInitialized (v6PeerAddress (happyEyeballsState (connection w)))"
    and "secondSocket (happyEyeballsState (connection w)) = Some sk"
    and "fst (happyEyeballsSetUpSocket pf sk
           (if cachedFamily = AF_INET then v6PeerAddress (happyEyeballsState (connection w))
            else v4PeerAddress (happyEyeballsState (connection w)))
           (transportSettings (connection w)) errCb readCb) = Threw"
  shows "\<exists>w'. startHappyEyeballs pf w cachedFamily delay errCb readCb = Inr w' \<and>
     timerCalls (timeout w') = timerCalls (timeout w) @ [ScheduleTimeout delay, CancelTimeout] \<and>
     scheduledDelay (timeout w') = None \<and>
     finished (happyEyeballsState (connection w')) \<and>
     peerAddress (connection w') =
       (if cachedFamily = AF_INET then v4PeerAddress (happyEyeballsState (connection w))
        else v6PeerAddress (happyEyeballsState (connection w))) \<and>
     originalPeerAddress (connection w') =
       (if cachedFamily = AF_INET then v4PeerAddress (happyEyeballsState (connection w))
        else v6PeerAddress (happyEyeballsState (connection w)))"
proof (cases "cachedFamily = AF_INET")
  case True
  with assms(4) obtain sk' where
    "happyEyeballsSetUpSocket pf sk (v6PeerAddress (happyEyeballsState (connection w)))
       (transportSettings (connection w)) errCb readCb = (Threw, sk')"
    by (metis prod.collapse)
  with assms(1-3) True show ?thesis
    by (simp add: startHappyEyeballs_def Let_def scheduledDelay_def cancelTimeout_def
        scheduleTimeout_def)
next
  case False
  with assms(4) obtain sk' where
    "happyEyeballsSetUpSocket pf sk (v4PeerAddress (happyEyeballsState (connection w)))
       (transportSettings (connection w)) errCb readCb = (Threw, sk')"
    by (metis prod.collapse)
  with assms(1-3) False show ?thesis
    by (simp add: startHappyEyeballs_def Let_def scheduledDelay_def cancelTimeout_def
        scheduleTimeout_def)
qed

text \<open>The second socket is to connect to the IPv6 address, to which there is no route.\<close>

theorem start_secondary_setup_throws_witness:
  "isInitialized (v4PeerAddress (happyEyeballsState (connection readyClient))) \<and>
   isInitialized (v6PeerAddress (happyEyeballsState (connection readyClient))) \<and>
   secondSocket (happyEyeballsState (connection readyClient)) = Some \<lparr>sockId = 2, calls = []\<rparr> \<and>
   fst (happyEyeballsSetUpSocket noRouteToV6 \<lparr>sockId = 2, calls = []\<rparr> serverV6
          (transportSettings (connection readyClient)) 7 8) = Threw \<and>
   (\<exists>w'. startHappyEyeballs noRouteToV6 readyClient AF_INET 150 7 8 = Inr w' \<and>
      timerCalls (timeout w') = [ScheduleTimeout 150, CancelTimeout] \<and>
      scheduledDelay (timeout w') = None \<and>
      finished (happyEyeballsState (connection w')) \<and>
      peerAddress (connection w') = serverV4 \<and>
      originalPeerAddress (connection w') = serverV4)"
  using start_secondary_setup_throws
      [of readyClient "\<lparr>sockId = 2, calls = []\<rparr>" noRouteToV6 AF_INET 7 8 150]
  by (simp add: example_defs socket_defs startHappyEyeballs_def Let_def)

text \<open>
  Claim C7, as amended. If \<open>finished\<close> is false, \<open>happyEyeballsStartSecondSocket\<close> sets
  \<open>shouldWriteToSecondSocket\<close> and changes nothing else. If \<open>finished\<close> is true the
  \<^verbatim>\<open>CHECK\<close> at its head fails: the call does not return.
\<close>

theorem startSecondSocket_check:
  "(\<not> finished he \<longrightarrow>
      happyEyeballsStartSecondSocket he = Inr (he\<lparr>shouldWriteToSecondSocket := True\<rparr>)) \<and>
   (finished he \<longrightarrow> happyEyeballsStartSecondSocket he = Inl CheckFailure)"
  by (simp add: happyEyeballsStartSecondSocket_def)

text \<open>Before and after the race is decided.\<close>

theorem startSecondSocket_check_witness:
  "\<not> finished emptyState \<and>
   happyEyeballsStartSecondSocket emptyState = Inr (emptyState\<lparr>shouldWriteToSecondSocket := True\<rparr>) \<and>
   finished (emptyState\<lparr>finished := True\<rparr>) \<and>
   happyEyeballsStartSecondSocket (emptyState\<lparr>finished := True\<rparr>) = Inl CheckFailure"
  using startSecondSocket_check [of emptyState]
    startSecondSocket_check [of "emptyState\<lparr>finished := True\<rparr>"]
  by (simp add: emptyState_def)

text \<open>With \<open>finished\<close> true the call does not return the state unchanged.\<close>

theorem startSecondSocket_finished_counterexample:
  "finished (emptyState\<lparr>finished := True\<rparr>) \<and>
   happyEyeballsStartSecondSocket (emptyState\<lparr>finished := True\<rparr>)
     \<noteq> Inr (emptyState\<lparr>finished := True\<rparr>)"
  by (simp add: happyEyeballsStartSecondSocket_def emptyState_def)

text \<open>
  Claim C8, as amended. \<open>happyEyeballsAddPeerAddress\<close> stores an \<open>AF_INET\<close> address in
  \<open>v4PeerAddress\<close> and an address of any other family in \<open>v6PeerAddress\<close>, and changes
  nothing else. A second registration for a slot that is already initialized is guarded
  by a \<^verbatim>\<open>DCHECK\<close> only: where \<^verbatim>\<open>DCHECK\<close> is compiled in the call does not return,
  elsewhere the new address replaces the registered one.
\<close>

theorem addPeerAddress_slots:
  "(getFamily addr = AF_INET \<and>
      \<not> (dchecks pf \<and> isInitialized (v4PeerAddress (happyEyeballsState conn))) \<longrightarrow>
      happyEyeballsAddPeerAddress pf conn addr =
        Inr (conn\<lparr>happyEyeballsState := (happyEyeballsState conn)\<lparr>v4PeerAddress := addr\<rparr>\<rparr>)) \<and>
   (getFamily addr \<noteq> AF_INET \<and>
      \<not> (dchecks pf \<and> isInitialized (v6PeerAddress (happyEyeballsState conn))) \<longrightarrow>
      happyEyeballsAddPeerAddress pf conn addr =
        Inr (conn\<lparr>happyEyeballsState := (happyEyeballsState conn)\<lparr>v6PeerAddress := addr\<rparr>\<rparr>)) \<and>
   (getFamily addr = AF_INET \<and> dchecks pf \<and>
      isInitialized (v4PeerAddress (happyEyeballsState conn)) \<longrightarrow>
      happyEyeballsAddPeerAddress pf conn addr = Inl DCheckFailure) \<and>
   (getFamily addr \<noteq> AF_INET \<and> dchecks pf \<and>
      isInitialized (v6PeerAddress (happyEyeballsState conn)) \<longrightarrow>
      happyEyeballsAddPeerAddress pf conn addr = Inl DCheckFailure)"
  by (simp add: happyEyeballsAddPeerAddress_def Let_def)

text \<open>First registrations of each family, and a duplicate of each in a debug build.\<close>

theorem addPeerAddress_slots_witness:
  "getFamily serverV4 = AF_INET \<and> dchecks debugBuild \<and>
   \<not> isInitialized (v4PeerAddress (happyEyeballsState emptyConnection)) \<and>
   happyEyeballsAddPeerAddress debugBuild emptyConnection serverV4 = Inr v4OnlyConnection \<and>
   getFamily serverV6 \<noteq> AF_INET \<and>
   \<not> isInitialized (v6PeerAddress (happyEyeballsState v4OnlyConnection)) \<and>
   happyEyeballsAddPeerAddress debugBuild v4OnlyConnection serverV6 =
     Inr (v4OnlyConnection
            \<lparr>happyEyeballsState := (happyEyeballsState v4OnlyConnection)\<lparr>v6PeerAddress := serverV6\<rparr>\<rparr>) \<and>
   getFamily otherV4 = AF_INET \<and>
   isInitialized (v4PeerAddress (happyEyeballsState v4OnlyConnection)) \<and>
   happyEyeballsAddPeerAddress debugBuild v4OnlyConnection otherV4 = Inl DCheckFailure \<and>
   isInitialized
     (v6PeerAddress (happyEyeballsState (v4OnlyConnection
        \<lparr>happyEyeballsState := (happyEyeballsState v4OnlyConnection)\<lparr>v6PeerAddress := serverV6\<rparr>\<rparr>))) \<and>
   happyEyeballsAddPeerAddress debugBuild
     (v4OnlyConnection
        \<lparr>happyEyeballsState := (happyEyeballsState v4OnlyConnection)\<lparr>v6PeerAddress := serverV6\<rparr>\<rparr>)
     serverV6 = Inl DCheckFailure"
  using addPeerAddress_slots [of serverV4 debugBuild emptyConnection]
    addPeerAddress_slots [of serverV6 debugBuild v4OnlyConnection]
    addPeerAddress_slots [of otherV4 debugBuild v4OnlyConnection]
    addPeerAddress_slots [of serverV6 debugBuild
      "v4OnlyConnection
        \<lparr>happyEyeballsState := (happyEyeballsState v4OnlyConnection)\<lparr>v6PeerAddress := serverV6\<rparr>\<rparr>"]
  by (simp add: example_defs)

text \<open>
  A second IPv4 address replaces the first where \<^verbatim>\<open>DCHECK\<close> is compiled out, and aborts
  where it is compiled in.
\<close>

theorem addPeerAddress_duplicate_counterexample:
  "getFamily otherV4 = AF_INET \<and>
   isInitialized (v4PeerAddress (happyEyeballsState v4OnlyConnection)) \<and>
   happyEyeballsAddPeerAddress releaseBuild v4OnlyConnection otherV4 =
     Inr (v4OnlyConnection
            \<lparr>happyEyeballsState := (happyEyeballsState v4OnlyConnection)\<lparr>v4PeerAddress := otherV4\<rparr>\<rparr>) \<and>
   otherV4 \<noteq> v4PeerAddress (happyEyeballsState v4OnlyConnection) \<and>
   happyEyeballsAddPeerAddress debugBuild v4OnlyConnection otherV4 = Inl DCheckFailure"
  by (simp add: happyEyeballsAddPeerAddress_def Let_def example_defs)

text \<open>
  Claim C10. Once \<open>finished\<close> is true, \<open>happyEyeballsOnDataReceived\<close> returns the state
  it was given, whatever the address. Hence two calls in a row, with any two addresses,
  end as the first call alone does.
\<close>

theorem onDataReceived_absorbs:
  "(finished (happyEyeballsState (connection w)) \<longrightarrow> happyEyeballsOnDataReceived w a = Inr w) \<and>
   (case happyEyeballsOnDataReceived w a1 of
      Inl e \<Rightarrow> Inl e
    | Inr w' \<Rightarrow> happyEyeballsOnDataReceived w' a2) = happyEyeballsOnDataReceived w a1"
  by (simp add: happyEyeballsOnDataReceived_def Let_def split: option.splits)

text \<open>A late datagram after the race was decided, and two datagrams in a row during it.\<close>

theorem onDataReceived_absorbs_witness:
  "finished (happyEyeballsState (connection
     (racingClient\<lparr>connection := (connection racingClient)
        \<lparr>happyEyeballsState :=
           (happyEyeballsState (connection racingClient))\<lparr>finished := True\<rparr>\<rparr>\<rparr>))) \<and>
   happyEyeballsOnDataReceived
     (racingClient\<lparr>connection := (connection racingClient)
        \<lparr>happyEyeballsState :=
           (happyEyeballsState (connection racingClient))\<lparr>finished := True\<rparr>\<rparr>\<rparr>) serverV4 =
     Inr (racingClient\<lparr>connection := (connection racingClient)
        \<lparr>happyEyeballsState :=
           (happyEyeballsState (connection racingClient))\<lparr>finished := True\<rparr>\<rparr>\<rparr>) \<and>
   \<not> finished (happyEyeballsState (connection racingClient)) \<and>
   (case happyEyeballsOnDataReceived racingClient serverV4 of
      Inl e \<Rightarrow> Inl e
    | Inr w' \<Rightarrow> happyEyeballsOnDataReceived w' serverV6) =
     happyEyeballsOnDataReceived racingClient serverV4 \<and>
   (\<exists>w'. happyEyeballsOnDataReceived racingClient serverV4 = Inr w' \<and>
      peerAddress (connection w') = serverV4)"
  using onDataReceived_absorbs
      [of "racingClient\<lparr>connection := (connection racingClient)
        \<lparr>happyEyeballsState :=
           (happyEyeballsState (connection racingClient))\<lparr>finished := True\<rparr>\<rparr>\<rparr>" serverV4
          serverV4 serverV6]
    onDataReceived_absorbs [of racingClient serverV4 serverV4 serverV6]
  by (simp add: example_defs socket_defs happyEyeballsOnDataReceived_def Let_def)

subsection \<open>Open sockets once the race is decided\<close>

text \<open>
  The path through \<open>happyEyeballsOnDataReceived\<close> that sets \<open>finished\<close> empties
  \<open>secondSocket\<close>, so that at most the first socket stays open.
\<close>

lemma onDataReceived_releases_second_socket:
  assumes "\<not> finished (happyEyeballsState (connection w))"
    and "happyEyeballsOnDataReceived w addr = Inr w'"
  shows "finished (happyEyeballsState (connection w')) \<and>
         secondSocket (happyEyeballsState (connection w')) = None \<and>
         openHandles w' \<le> 1"
  using assms
  by (auto simp add: happyEyeballsOnDataReceived_def Let_def openHandles_def
      split: option.splits if_splits)

text \<open>
  Claim C4 asks that at most one socket is open once \<open>finished\<close> is true, on each path
  that sets it. The path through the \<^verbatim>\<open>catch\<close> of \<open>startHappyEyeballs\<close> does not
  close or release the second socket. Here the second socket is bound and then fails to
  connect: \<open>finished\<close> is set while \<open>secondSocket\<close> still holds the bound, open socket,
  and once the transport's own socket is set up for the primary address two sockets are
  open.
\<close>

theorem start_setup_failure_leaves_second_socket_open:
  "startHappyEyeballs noRouteToV6 readyClient AF_INET 150 7 8 =
     Inr (readyClient
       \<lparr>connection := (connection readyClient)
          \<lparr>originalPeerAddress := serverV4,
           peerAddress := serverV4,
           happyEyeballsState := (happyEyeballsState (connection readyClient))
             \<lparr>connAttemptDelayTimeout := Some 1,
              secondPeerAddress := serverV6,
              secondSocket :=
                Some \<lparr>sockId = 2,
                      calls = [SetReuseAddr False, Bind wildcardV6, DontFragment True]\<rparr>,
              finished := True\<rparr>\<rparr>,
        timeout := \<lparr>timerId = 1, timerCalls = [ScheduleTimeout 150, CancelTimeout]\<rparr>\<rparr>) \<and>
   isOpen \<lparr>sockId = 2, calls = [SetReuseAddr False, Bind wildcardV6, DontFragment True]\<rparr> \<and>
   happyEyeballsSetUpSocket noRouteToV6 \<lparr>sockId = 1, calls = []\<rparr> serverV4 exampleSettings 7 8 =
     (Returned,
      \<lparr>sockId = 1,
       calls = [SetReuseAddr False, Bind wildcardV4, DontFragment True, Connect serverV4,
                ResumeRead 8]\<rparr>) \<and>
   openHandles (readyClient
       \<lparr>connection := (connection readyClient)
          \<lparr>originalPeerAddress := serverV4,
           peerAddress := serverV4,
           happyEyeballsState := (happyEyeballsState (connection readyClient))
             \<lparr>connAttemptDelayTimeout := Some 1,
              secondPeerAddress := serverV6,
              secondSocket :=
                Some \<lparr>sockId = 2,
                      calls = [SetReuseAddr False, Bind wildcardV6, DontFragment True]\<rparr>,
              finished := True\<rparr>\<rparr>,
        timeout := \<lparr>timerId = 1, timerCalls = [ScheduleTimeout 150, CancelTimeout]\<rparr>,
        socket :=
          Some \<lparr>sockId = 1,
                calls = [SetReuseAddr False, Bind wildcardV4, DontFragment True,
                         Connect serverV4, ResumeRead 8]\<rparr>\<rparr>) = 2"
  by (simp add: example_defs socket_defs startHappyEyeballs_def Let_def openHandles_def)

subsection \<open>Cipher hand-off\<close>











subsection \<open>Zero-RTT rejection\<close>

lemma zeroRttReads_none:
  "zeroRttRejected h = None \<Longrightarrow> zeroRttReads n h = replicate n None"
  by (induction n arbitrary: h) (simp_all add: getZeroRttRejected_def)

text \<open>
  Claim C9. While no result is recorded (zero-rtt never attempted), every call of
  \<open>getZeroRttRejected\<close> returns none. With a result recorded, the first call returns it
  (rejected or accepted) and every later call returns none.
\<close>

theorem getZeroRttRejected_edge_triggered:
  "(zeroRttRejected h = None \<longrightarrow> zeroRttReads n h = replicate n None) \<and>
   (zeroRttRejected h = Some b \<longrightarrow> zeroRttReads (Suc n) h = Some b # replicate n None)"
  using zeroRttReads_none [of "snd (getZeroRttRejected h)" n] zeroRttReads_none [of h n]
  by (simp add: getZeroRttRejected_def)

text \<open>Three calls in a row: never attempted, rejected, accepted.\<close>

theorem getZeroRttRejected_edge_triggered_witness:
  "zeroRttRejected emptyHandshake = None \<and>
   zeroRttReads 3 emptyHandshake = [None, None, None] \<and>
   zeroRttRejected (emptyHandshake\<lparr>zeroRttRejected := Some True\<rparr>) = Some True \<and>
   zeroRttReads 3 (emptyHandshake\<lparr>zeroRttRejected := Some True\<rparr>) = [Some True, None, None] \<and>
   zeroRttRejected (emptyHandshake\<lparr>zeroRttRejected := Some False\<rparr>) = Some False \<and>
   zeroRttReads 3 (emptyHandshake\<lparr>zeroRttRejected := Some False\<rparr>) = [Some False, None, None]"
  using getZeroRttRejected_edge_triggered [of emptyHandshake 3]
    getZeroRttRejected_edge_triggered [of "emptyHandshake\<lparr>zeroRttRejected := Some True\<rparr>" 2 True]
    getZeroRttRejected_edge_triggered [of "emptyHandshake\<lparr>zeroRttRejected := Some False\<rparr>" 2 False]
  by (simp add: emptyHandshake_def numeral_3_eq_3 numeral_2_eq_2)

end
